theory Spec2Isabelle
  imports Main "HOL-Library.Multiset"
begin

section \<open>Data model\<close>

text \<open>
  A pandas cell. \<open>NaN\<close> stands for every missing value (\<open>NaN\<close>, \<open>None\<close>, \<open>NaT\<close>),
  \<open>Str\<close> for a Python string, \<open>Num\<close> for a number and \<open>Ts\<close> for a parsed
  \<open>Timestamp\<close>. Two cells are equal as the Python values are: a string never equals a
  number, which is what \<open>Series.isin\<close> compares.
\<close>

datatype cell = NaN | Str string | Num int | Ts int

text \<open>
  A row gives a cell to every column name; a \<open>DataFrame\<close> is its column labels and its
  rows, in order. The index labels are not modelled: \<open>pd.read_excel\<close> and
  \<open>pd.read_csv\<close> hand out a \<open>RangeIndex\<close> (the position of the row),
  \<open>concat(..., ignore_index=True)\<close> renumbers, and \<open>to_csv(index=False)\<close> drops them.
\<close>

type_synonym row = "string \<Rightarrow> cell"

record dataframe =
  columns :: "string list"
  rows :: "row list"

text \<open>\<open>pd.DataFrame()\<close>: no columns, no rows.\<close>

definition DataFrame :: dataframe where
  "DataFrame = \<lparr>columns = [], rows = []\<rparr>"

text \<open>\<open>df.empty\<close>: true when any axis has length 0.\<close>

definition df_empty :: "dataframe \<Rightarrow> bool" where
  "df_empty df \<longleftrightarrow> columns df = [] \<or> rows df = []"

text \<open>\<open>df[c] = f(row)\<close>: the column is appended when it is new, overwritten otherwise.\<close>

definition set_column :: "string \<Rightarrow> (row \<Rightarrow> cell) \<Rightarrow> dataframe \<Rightarrow> dataframe" where
  "set_column c f df =
     \<lparr>columns = (if c \<in> set (columns df) then columns df else columns df @ [c]),
      rows = map (\<lambda>r. r(c := f r)) (rows df)\<rparr>"

text \<open>
  \<open>pd.to_datetime(series, errors='coerce')\<close> on one cell. What pandas can read as a
  timestamp is a parameter \<open>to_datetime\<close> (\<open>None\<close>: not readable); with
  \<open>errors='coerce'\<close> an unreadable cell becomes \<open>NaT\<close>.
\<close>

definition coerce_datetime :: "(cell \<Rightarrow> int option) \<Rightarrow> cell \<Rightarrow> cell" where
  "coerce_datetime to_datetime c = (case to_datetime c of Some t \<Rightarrow> Ts t | None \<Rightarrow> NaN)"

text \<open>
  The answer of \<open>requests.get\<close>: the call raises, or it returns a status code and a
  body. The body is \<open>None\<close> when reading it raises (\<open>response.json()['content']\<close>,
  \<open>base64.b64decode\<close>, \<open>.decode()\<close>, \<open>pd.read_csv\<close> or \<open>json.loads\<close>) and the
  decoded document otherwise.
\<close>

datatype 'a http_get = Raised | Got nat "'a option"

datatype exn = Exception

section \<open>github\_storage.py\<close>

subsection \<open>\<open>GitHubStorage.load_dataframe\<close>\<close>

text \<open>Lines 84 to 87: the two date columns are parsed again when they are present.\<close>

definition reconvert_dates :: "(cell \<Rightarrow> int option) \<Rightarrow> dataframe \<Rightarrow> dataframe" where
  "reconvert_dates to_datetime df =
     (let df1 = (if ''data'' \<in> set (columns df)
                 then set_column ''data'' (\<lambda>r. coerce_datetime to_datetime (r ''data'')) df
                 else df)
      in if ''import_datetime'' \<in> set (columns df1)
         then set_column ''import_datetime''
                (\<lambda>r. coerce_datetime to_datetime (r ''import_datetime'')) df1
         else df1)"

text \<open>The body of the \<open>try\<close> (lines 72 to 91): \<open>Inl\<close> is a raised exception.\<close>

definition load_dataframe_try ::
  "(cell \<Rightarrow> int option) \<Rightarrow> dataframe http_get \<Rightarrow> exn + dataframe" where
  "load_dataframe_try to_datetime response =
     (case response of
        Raised \<Rightarrow> Inl Exception
      | Got status_code body \<Rightarrow>
          if status_code = 200
          then (case body of
                  None \<Rightarrow> Inl Exception
                | Some df \<Rightarrow> Inr (reconvert_dates to_datetime df))
          else Inr DataFrame)"

text \<open>The whole method: \<open>except Exception\<close> (lines 93 to 95) returns \<open>pd.DataFrame()\<close>.\<close>

definition load_dataframe :: "(cell \<Rightarrow> int option) \<Rightarrow> dataframe http_get \<Rightarrow> dataframe" where
  "load_dataframe to_datetime response =
     (case load_dataframe_try to_datetime response of
        Inl e \<Rightarrow> DataFrame
      | Inr df \<Rightarrow> df)"

subsection \<open>\<open>GitHubStorage.load_metadata\<close>\<close>

text \<open>
  One entry of \<open>import_history\<close>, the dictionary built at lines 350 to 357 of main.py.
  \<open>import_datetime\<close> is kept as the timestamp that the \<open>strftime\<close> string of line 354
  denotes, so that \<open>pd.to_datetime\<close> at line 156 cannot fail on it. \<open>file_hash\<close> is
  optional because line 338 reads it with \<open>imp.get('file_hash', '')\<close>.
\<close>

record import_metadata =
  import_id :: string
  filename :: string
  import_date :: string
  import_datetime :: int
  total_records :: nat
  file_hash :: "string option"

text \<open>
  The metadata document, a JSON object. Every key may be missing (\<open>None\<close>), as the code
  reads each with \<open>metadata.get\<close>; \<open>last_update\<close> may be present and \<open>null\<close>
  (\<open>Some None\<close>). \<open>subcategories\<close> is the dictionary in insertion order.
\<close>

record metadata =
  import_history :: "import_metadata list option"
  last_update :: "string option option"
  categories :: "string list option"
  subcategories :: "(string \<times> string list) list option"

text \<open>The empty dictionary \<open>{}\<close>.\<close>

definition empty_dict :: metadata where
  "empty_dict = \<lparr>import_history = None, last_update = None, categories = None,
                   subcategories = None\<rparr>"

text \<open>The literal of lines 141 to 151.\<close>

definition default_metadata :: metadata where
  "default_metadata =
     \<lparr>import_history = Some [],
      last_update = Some None,
      categories = Some [''Software'', ''Domini e Hosting'', ''Servizi Web'', ''Abbonamenti'',
                         ''Hardware'', ''Consulenze'', ''Marketing'', ''Altro''],
      subcategories = Some
        [(''Software'', [''Licenze'', ''Abbonamenti SaaS'', ''Plugin'', ''Applicazioni'']),
         (''Domini e Hosting'', [''Registrazione Domini'', ''Hosting Web'', ''SSL'', ''CDN'']),
         (''Servizi Web'', [''API'', ''Cloud Storage'', ''Email Service'', ''Backup'']),
         (''Marketing'', [''Advertising'', ''Social Media'', ''Email Marketing'',
                          ''SEO Tools''])]\<rparr>"

definition load_metadata_try :: "metadata http_get \<Rightarrow> exn + metadata" where
  "load_metadata_try response =
     (case response of
        Raised \<Rightarrow> Inl Exception
      | Got status_code body \<Rightarrow>
          if status_code = 200
          then (case body of None \<Rightarrow> Inl Exception | Some md \<Rightarrow> Inr md)
          else Inr default_metadata)"

definition load_metadata :: "metadata http_get \<Rightarrow> metadata" where
  "load_metadata response =
     (case load_metadata_try response of
        Inl e \<Rightarrow> empty_dict
      | Inr md \<Rightarrow> md)"

section \<open>main.py\<close>

subsection \<open>pandas operations used by the merge\<close>

text \<open>
  \<open>pd.concat([a, b], ignore_index=True)\<close>: the columns of \<open>a\<close> followed by the new
  ones of \<open>b\<close>, the rows of \<open>a\<close> followed by those of \<open>b\<close>; a row has \<open>NaN\<close> in
  every column that its own frame does not have.
\<close>

definition reindex_row :: "string list \<Rightarrow> row \<Rightarrow> row" where
  "reindex_row cols r = (\<lambda>c. if c \<in> set cols then r c else NaN)"

definition pd_concat :: "dataframe \<Rightarrow> dataframe \<Rightarrow> dataframe" where
  "pd_concat a b =
     \<lparr>columns = columns a @ filter (\<lambda>c. c \<notin> set (columns a)) (columns b),
      rows = map (reindex_row (columns a)) (rows a) @ map (reindex_row (columns b)) (rows b)\<rparr>"

text \<open>
  \<open>df.sort_values('data', ascending=False)\<close>, as pandas' \<open>nargsort\<close> computes it: the
  rows whose date is missing are set aside in their order; the others are reversed, sorted
  by date ascending, reversed again; the set-aside rows are appended
  (\<open>na_position='last'\<close>). Both callers coerce the column with \<open>pd.to_datetime\<close>, so
  its cells are timestamps or \<open>NaT\<close>; a cell that is not a timestamp counts as missing.
  The sort of the dated rows is the insertion sort \<open>sort_key\<close>, which keeps rows of equal
  date in their order; numpy's default kind does not promise that, and nothing below
  relies on the order among rows of equal date.
\<close>

definition dated :: "row \<Rightarrow> bool" where
  "dated r = (case r ''data'' of Ts t \<Rightarrow> True | _ \<Rightarrow> False)"

definition date_key :: "row \<Rightarrow> int" where
  "date_key r = (case r ''data'' of Ts t \<Rightarrow> t | _ \<Rightarrow> 0)"

definition sort_values_data :: "dataframe \<Rightarrow> dataframe" where
  "sort_values_data df =
     df\<lparr>rows := rev (sort_key date_key (rev (filter dated (rows df))))
                 @ filter (\<lambda>r. \<not> dated r) (rows df)\<rparr>"

subsection \<open>\<open>add_import_to_historical\<close>\<close>

text \<open>Lines 153 to 157: the copy of the batch with the four provenance columns.\<close>

definition stamp :: "import_metadata \<Rightarrow> dataframe \<Rightarrow> dataframe" where
  "stamp m new_data =
     set_column ''import_filename'' (\<lambda>r. Str (filename m))
       (set_column ''import_datetime'' (\<lambda>r. Ts (import_datetime m))
         (set_column ''import_date'' (\<lambda>r. Str (import_date m))
           (set_column ''import_id'' (\<lambda>r. Str (import_id m)) new_data)))"

text \<open>Line 164: \<open>set(historical_df['codice_transazione'].dropna())\<close>.\<close>

definition existing_codes :: "dataframe \<Rightarrow> cell set" where
  "existing_codes historical_df =
     set (filter (\<lambda>c. c \<noteq> NaN) (map (\<lambda>r. r ''codice_transazione'') (rows historical_df)))"

text \<open>Line 165: the rows of the batch whose code is not among the existing ones.\<close>

definition new_transactions :: "dataframe \<Rightarrow> dataframe \<Rightarrow> dataframe" where
  "new_transactions historical_df new_data_copy =
     new_data_copy\<lparr>rows := filter (\<lambda>r. r ''codice_transazione'' \<notin> existing_codes historical_df)
                               (rows new_data_copy)\<rparr>"

text \<open>What the function tells the user: the warning of line 168, the success of line 171.\<close>

datatype message = All_already_present | Added nat nat

text \<open>
  What a call does: the frame it returns, the frame it hands to
  \<open>save_historical_data\<close> (\<open>None\<close> when that is not called) and the messages it shows.
\<close>

record outcome =
  returned :: dataframe
  saved :: "dataframe option"
  shown :: "message list"

text \<open>Lines 176 to 181: sort by date when there is a date column, save, return.\<close>

definition sort_and_save :: "dataframe \<Rightarrow> message list \<Rightarrow> outcome" where
  "sort_and_save updated_historical msgs =
     (let sorted_df = (if ''data'' \<in> set (columns updated_historical)
                       then sort_values_data updated_historical
                       else updated_historical)
      in \<lparr>returned = sorted_df, saved = Some sorted_df, shown = msgs\<rparr>)"

text \<open>
  The function, with the frame that \<open>load_historical_data()\<close> returned at line 150 as
  its first argument. With dates and the import timestamp already parsed, no operation of
  the body raises, so the handler of line 183 has no branch here.
\<close>

definition add_import_to_historical ::
  "dataframe \<Rightarrow> dataframe \<Rightarrow> import_metadata \<Rightarrow> outcome" where
  "add_import_to_historical historical_df new_data m =
     (let new_data_copy = stamp m new_data in
      if df_empty historical_df then sort_and_save new_data_copy []
      else if ''codice_transazione'' \<in> set (columns historical_df)
              \<and> ''codice_transazione'' \<in> set (columns new_data_copy)
      then (let new_tx = new_transactions historical_df new_data_copy in
            if length (rows new_tx) = 0
            then \<lparr>returned = historical_df, saved = None, shown = [All_already_present]\<rparr>
            else sort_and_save (pd_concat historical_df new_tx)
                   [Added (length (rows new_tx))
                          (length (rows new_data_copy) - length (rows new_tx))])
      else sort_and_save (pd_concat historical_df new_data_copy) [])"

text \<open>
  The frame of line 160 or line 174, before the sort of line 178: the order that the sort
  starts from. (On the early return of line 169 there is no such frame; the definition
  gives the concatenation of the existing ledger with no row.)
\<close>

definition updated_historical :: "dataframe \<Rightarrow> dataframe \<Rightarrow> import_metadata \<Rightarrow> dataframe" where
  "updated_historical historical_df new_data m =
     (let new_data_copy = stamp m new_data in
      if df_empty historical_df then new_data_copy
      else if ''codice_transazione'' \<in> set (columns historical_df)
              \<and> ''codice_transazione'' \<in> set (columns new_data_copy)
      then pd_concat historical_df (new_transactions historical_df new_data_copy)
      else pd_concat historical_df new_data_copy)"

text \<open>
  The row that lines 154 to 157 make of a row of the batch, and the rows of a batch whose
  code is new to the ledger: the words in which the properties below speak about line 165.
\<close>

definition stamp_row :: "import_metadata \<Rightarrow> row \<Rightarrow> row" where
  "stamp_row m r =
     r(''import_id'' := Str (import_id m), ''import_date'' := Str (import_date m),
       ''import_datetime'' := Ts (import_datetime m), ''import_filename'' := Str (filename m))"

definition kept_rows :: "dataframe \<Rightarrow> dataframe \<Rightarrow> row list" where
  "kept_rows historical_df new_data =
     filter (\<lambda>r. r ''codice_transazione'' \<notin> existing_codes historical_df) (rows new_data)"

subsection \<open>\<open>clean_and_standardize_df\<close>, lines 96 to 103\<close>

text \<open>\<open>str(n)\<close> for a row position.\<close>

definition digit :: "nat \<Rightarrow> char" where
  "digit d = ''0123456789'' ! d"

fun str_nat :: "nat \<Rightarrow> string" where
  "str_nat n = (if n < 10 then [digit n] else str_nat (n div 10) @ [digit (n mod 10)])"

text \<open>
  \<open>df[c] = f(df.index, row)\<close> on a frame with a \<open>RangeIndex\<close>: the index of a row is
  its position.
\<close>

definition set_column_indexed ::
  "string \<Rightarrow> (nat \<Rightarrow> row \<Rightarrow> cell) \<Rightarrow> dataframe \<Rightarrow> dataframe" where
  "set_column_indexed c f df =
     \<lparr>columns = (if c \<in> set (columns df) then columns df else columns df @ [c]),
      rows = map (\<lambda>(i, r). r(c := f i r)) (enumerate 0 (rows df))\<rparr>"

text \<open>
  \<open>.astype(str)\<close> on one cell: a string stays, a missing value prints as \<open>nan\<close>; how
  pandas prints a number or a timestamp is the parameter \<open>fmt\<close>.
\<close>

definition astype_str :: "(cell \<Rightarrow> string) \<Rightarrow> cell \<Rightarrow> string" where
  "astype_str fmt c = (case c of Str s \<Rightarrow> s | NaN \<Rightarrow> ''nan'' | _ \<Rightarrow> fmt c)"

definition fillna :: "cell \<Rightarrow> cell \<Rightarrow> cell" where
  "fillna v c = (if c = NaN then v else c)"

text \<open>
  The last two steps of \<open>clean_and_standardize_df\<close>, on the frame that lines 43 to 94
  leave (columns renamed, text columns normalised; none of them writes
  \<open>codice_transazione\<close>): a batch without the column, or with no code at all, gets the
  code \<open>TXN_<position>\<close>; then \<open>id_univoco\<close> is the code, an underscore and the
  position.
\<close>

definition assign_transaction_codes :: "(cell \<Rightarrow> string) \<Rightarrow> dataframe \<Rightarrow> dataframe" where
  "assign_transaction_codes fmt df =
     (let df1 =
        (if ''codice_transazione'' \<notin> set (columns df)
            \<or> list_all (\<lambda>r. r ''codice_transazione'' = NaN) (rows df)
         then set_column_indexed ''codice_transazione'' (\<lambda>i r. Str (''TXN_'' @ str_nat i)) df
         else set_column ''codice_transazione''
                (\<lambda>r. Str (astype_str fmt (fillna (Str []) (r ''codice_transazione'')))) df)
      in set_column_indexed ''id_univoco''
           (\<lambda>i r. Str (astype_str fmt (r ''codice_transazione'') @ ''_'' @ str_nat i)) df1)"

subsection \<open>\<open>save_metadata\<close> and the handlers of the sidebar\<close>

text \<open>
  \<open>GitHubStorage.save_metadata\<close> stamps \<open>last_update\<close> with the current time (line 101
  of github\_storage.py) and sends the document; this is the document it sends.
\<close>

definition save_metadata :: "string \<Rightarrow> metadata \<Rightarrow> metadata" where
  "save_metadata now md = md\<lparr>last_update := Some (Some now)\<rparr>"

text \<open>
  What a handler writes to the store: the argument of \<open>save_historical_data\<close> and the
  document sent by \<open>save_metadata\<close>, \<open>None\<close> when the handler does not call it.
\<close>

record writes =
  ledger_written :: "dataframe option"
  metadata_written :: "metadata option"

text \<open>
  The ledger in the store after a handler has run: a write replaces the whole document,
  no write leaves it as it was.
\<close>

definition ledger_after :: "writes \<Rightarrow> dataframe \<Rightarrow> dataframe" where
  "ledger_after w stored = (case ledger_written w of None \<Rightarrow> stored | Some df \<Rightarrow> df)"

text \<open>
  Lines 287 to 298, for a click on the delete button of row \<open>i\<close> of the category list.
  The buttons exist for the positions of \<open>categories = metadata.get('categories', [])\<close>;
  \<open>categories.remove(cat)\<close> removes the first occurrence of the name;
  \<open>del metadata['subcategories'][cat]\<close> removes the key when the dictionary has it.
\<close>

definition delete_category :: "string \<Rightarrow> metadata \<Rightarrow> nat \<Rightarrow> writes" where
  "delete_category now md i =
     (let cats = (case categories md of Some cs \<Rightarrow> cs | None \<Rightarrow> []) in
      if i < length cats
      then (let cat = cats ! i;
                cats' = remove1 cat cats;
                subs = (case subcategories md of Some d \<Rightarrow> d | None \<Rightarrow> []);
                md1 = (if cat \<in> fst ` set subs
                       then md\<lparr>subcategories := Some (filter (\<lambda>kv. fst kv \<noteq> cat) subs)\<rparr>
                       else md);
                md2 = md1\<lparr>categories := Some cats'\<rparr>
            in \<lparr>ledger_written = None, metadata_written = Some (save_metadata now md2)\<rparr>)
      else \<lparr>ledger_written = None, metadata_written = None\<rparr>)"

subsection \<open>The upload guard, lines 336 to 371\<close>

text \<open>
  The uploaded file: its name, its size and its bytes (\<open>None\<close> when \<open>read()\<close> or
  \<open>seek(0)\<close> raises).
\<close>

record uploaded_file =
  file_name :: string
  file_size :: nat
  file_bytes :: "string option"

text \<open>
  \<open>get_file_hash\<close>, lines 224 to 231. \<open>md5\<close> is \<open>hashlib.md5(b).hexdigest()\<close> and
  \<open>py_hash\<close> is \<open>str(hash(s))\<close>; both are parameters.
\<close>

definition get_file_hash ::
  "(string \<Rightarrow> string) \<Rightarrow> (string \<Rightarrow> string) \<Rightarrow> uploaded_file \<Rightarrow> string" where
  "get_file_hash md5 py_hash f =
     (case file_bytes f of
        Some b \<Rightarrow> md5 b
      | None \<Rightarrow> py_hash (file_name f @ str_nat (file_size f)))"

text \<open>
  What the rest of the world answers during one run of the handler: the GET of the ledger,
  the frame returned by \<open>load_paypal_excel\<close> (\<open>None\<close> when it fails), the identifier
  made by \<open>generate_import_id\<close> and the clock in its three formats.
\<close>

record env =
  ledger_response :: "dataframe http_get"
  paypal_excel :: "dataframe option"
  generated_import_id :: string
  today :: string
  now_timestamp :: int
  now_string :: string

text \<open>
  What the handler does: whether it warned that the file is already loaded (line 341),
  whether it called \<open>load_paypal_excel\<close>, the outcome of \<open>add_import_to_historical\<close>
  when it called it, and the metadata document it wrote.
\<close>

record upload_outcome =
  already_loaded :: bool
  parsed :: bool
  merged :: "outcome option"
  metadata_saved :: "metadata option"

definition upload_handler ::
  "(string \<Rightarrow> string) \<Rightarrow> (string \<Rightarrow> string) \<Rightarrow> (cell \<Rightarrow> int option) \<Rightarrow> env \<Rightarrow> metadata
     \<Rightarrow> uploaded_file option \<Rightarrow> upload_outcome" where
  "upload_handler md5 py_hash to_datetime e md uploaded =
     (case uploaded of
        None \<Rightarrow> \<lparr>already_loaded = False, parsed = False, merged = None, metadata_saved = None\<rparr>
      | Some f \<Rightarrow>
         (let hist = (case import_history md of Some h \<Rightarrow> h | None \<Rightarrow> []);
              fhash = get_file_hash md5 py_hash f;
              existing_hashes = map (\<lambda>imp. case file_hash imp of Some h \<Rightarrow> h | None \<Rightarrow> []) hist
          in if fhash \<in> set existing_hashes
             then \<lparr>already_loaded = True, parsed = False, merged = None, metadata_saved = None\<rparr>
             else (case paypal_excel e of
                     None \<Rightarrow> \<lparr>already_loaded = False, parsed = True, merged = None,
                              metadata_saved = None\<rparr>
                   | Some paypal_df \<Rightarrow>
                      (let im = \<lparr>import_id = generated_import_id e,
                                 filename = file_name f,
                                 import_date = today e,
                                 import_datetime = now_timestamp e,
                                 total_records = length (rows paypal_df),
                                 file_hash = Some fhash\<rparr>;
                           out = add_import_to_historical
                                   (load_dataframe to_datetime (ledger_response e)) paypal_df im;
                           md' = md\<lparr>import_history := Some (hist @ [im])\<rparr>
                       in \<lparr>already_loaded = False, parsed = True, merged = Some out,
                           metadata_saved = Some (save_metadata (now_string e) md')\<rparr>))))"

text \<open>
  A row written as a dictionary: the cell of a listed column, \<open>NaN\<close> elsewhere. The
  concrete frames below are written with it.
\<close>

definition row_of :: "(string \<times> cell) list \<Rightarrow> row" where
  "row_of kvs c = (case map_of kvs c of Some v \<Rightarrow> v | None \<Rightarrow> NaN)"

subsection \<open>Example data\<close>

text \<open>
  A ledger with the codes A and B, batches with the codes B, C and B, A, and the
  provenance of two imports.
\<close>

definition txn :: "string \<Rightarrow> cell \<Rightarrow> row" where
  "txn code date = row_of [(''codice_transazione'', Str code), (''data'', date)]"

definition ledger_AB :: dataframe where
  "ledger_AB = \<lparr>columns = [''codice_transazione'', ''data''],
                  rows = [txn ''A'' (Ts 1), txn ''B'' (Ts 2)]\<rparr>"

definition batch_BC :: dataframe where
  "batch_BC = \<lparr>columns = [''codice_transazione'', ''data''],
                 rows = [txn ''B'' (Ts 2), txn ''C'' (Ts 3)]\<rparr>"

definition import_1 :: import_metadata where
  "import_1 = \<lparr>import_id = ''PP_1'', filename = ''one.xlsx'', import_date = ''2024-01-01'',
                 import_datetime = 10, total_records = 2, file_hash = Some ''h1''\<rparr>"

definition import_2 :: import_metadata where
  "import_2 = \<lparr>import_id = ''PP_2'', filename = ''two.xlsx'', import_date = ''2024-01-02'',
                 import_datetime = 20, total_records = 2, file_hash = Some ''h2''\<rparr>"

definition batch_AB :: dataframe where
  "batch_AB = \<lparr>columns = [''codice_transazione'', ''data''],
                 rows = [txn ''B'' (Ts 2), txn ''A'' (Ts 1)]\<rparr>"




text \<open>
  Two batches without transaction codes, one record each, and a stand-in for the printing
  of numbers and timestamps (not used by these batches: their codes are synthetic).
\<close>

definition batch_alice :: dataframe where
  "batch_alice = \<lparr>columns = [''nome''], rows = [row_of [(''nome'', Str ''Alice'')]]\<rparr>"

definition batch_bob :: dataframe where
  "batch_bob = \<lparr>columns = [''nome''], rows = [row_of [(''nome'', Str ''Bob'')]]\<rparr>"

definition plain :: "cell \<Rightarrow> string" where
  "plain c = []"

text \<open>
  A metadata document that records the import \<open>import_1\<close>, an upload with the same
  bytes, an environment, and stand-ins for the hash and for the date parser.
\<close>

definition history_one :: metadata where
  "history_one = default_metadata\<lparr>import_history := Some [import_1]\<rparr>"

definition upload_h1 :: uploaded_file where
  "upload_h1 = \<lparr>file_name = ''again.xlsx'', file_size = 2, file_bytes = Some ''h1''\<rparr>"

definition quiet_env :: env where
  "quiet_env = \<lparr>ledger_response = Raised, paypal_excel = Some batch_BC,
                  generated_import_id = ''PP_3'', today = ''2024-01-03'',
                  now_timestamp = 30, now_string = ''2024-01-03 00:00:00''\<rparr>"

definition toy_hash :: "string \<Rightarrow> string" where
  "toy_hash b = b"

definition no_datetime :: "cell \<Rightarrow> int option" where
  "no_datetime c = None"

text \<open>A ledger with a record tagged with the category Marketing.\<close>

definition ledger_marketing :: dataframe where
  "ledger_marketing = \<lparr>columns = [''codice_transazione'', ''categoria''],
                         rows = [row_of [(''codice_transazione'', Str ''A''),
                                         (''categoria'', Str ''Marketing'')]]\<rparr>"

section \<open>Properties of the store's reads\<close>

text \<open>
  C8. \<open>load_dataframe\<close> is total and its exception handler catches whatever the body
  raises: when the GET raises, when it answers with a status other than 200, and when the
  status is 200 but the body cannot be decoded, the result is the empty frame
  \<open>pd.DataFrame()\<close>, which \<open>df.empty\<close> recognises. In every case the body of the
  \<open>try\<close> either returns the value that the method returns or raises and the method
  returns the empty frame.
\<close>

theorem load_dataframe_total:
  "load_dataframe td Raised = DataFrame
   \<and> (status_code \<noteq> 200 \<longrightarrow> load_dataframe td (Got status_code body) = DataFrame)
   \<and> load_dataframe td (Got 200 None) = DataFrame
   \<and> df_empty DataFrame
   \<and> (\<forall>response. case load_dataframe_try td response of
          Inl e \<Rightarrow> load_dataframe td response = DataFrame
        | Inr df \<Rightarrow> load_dataframe td response = df)"
  by (simp add: load_dataframe_def load_dataframe_try_def df_empty_def DataFrame_def
      split: sum.split)

theorem load_dataframe_total_witness:
  "(404::nat) \<noteq> 200
   \<and> load_dataframe (\<lambda>c. None) (Got 404 (Some \<lparr>columns = [''data''], rows = [\<lambda>c. Str ''x'']\<rparr>))
       = DataFrame
   \<and> load_dataframe (\<lambda>c. None) Raised = DataFrame
   \<and> load_dataframe (\<lambda>c. None) (Got 200 None) = DataFrame"
  using load_dataframe_total [of "\<lambda>c. None" 404 "Some \<lparr>columns = [''data''], rows = [\<lambda>c. Str ''x'']\<rparr>"]
  by simp

text \<open>
  C10. The two absence paths of \<open>load_metadata\<close> differ. A status other than 200 gives
  the built-in default document: eight categories, four subcategory lists, an empty
  \<open>import_history\<close> and \<open>last_update\<close> set to \<open>None\<close>. A raised exception (in the
  request or while decoding a 200 answer) gives the empty dictionary, which has neither
  \<open>categories\<close> nor \<open>import_history\<close>.
\<close>

theorem load_metadata_absence_paths:
  "(status_code \<noteq> 200 \<longrightarrow> load_metadata (Got status_code body) = default_metadata)
   \<and> load_metadata Raised = empty_dict
   \<and> load_metadata (Got 200 None) = empty_dict
   \<and> default_metadata \<noteq> empty_dict
   \<and> map_option length (categories default_metadata) = Some 8
   \<and> map_option length (subcategories default_metadata) = Some 4
   \<and> import_history default_metadata = Some []
   \<and> last_update default_metadata = Some None
   \<and> categories empty_dict = None
   \<and> subcategories empty_dict = None
   \<and> import_history empty_dict = None
   \<and> last_update empty_dict = None"
  by (simp add: load_metadata_def load_metadata_try_def default_metadata_def empty_dict_def)

theorem load_metadata_absence_paths_witness:
  "(404::nat) \<noteq> 200
   \<and> load_metadata (Got 404 None) = default_metadata
   \<and> load_metadata Raised = empty_dict
   \<and> default_metadata \<noteq> empty_dict"
  using load_metadata_absence_paths [of 404 None]
  by simp

section \<open>The merge\<close>

subsection \<open>Stamping, sorting and saving\<close>

lemma rows_stamp: "rows (stamp m df) = map (stamp_row m) (rows df)"
  by (simp add: stamp_def set_column_def stamp_row_def)

lemma set_columns_stamp:
  "set (columns (stamp m df)) =
     set (columns df) \<union> {''import_id'', ''import_date'', ''import_datetime'', ''import_filename''}"
  by (auto simp add: stamp_def set_column_def)

lemma columns_stamp_indep: "columns (stamp m df) = columns (stamp m' df)"
  by (simp add: stamp_def set_column_def)

lemma code_in_stamp [simp]:
  "''codice_transazione'' \<in> set (columns (stamp m df))
     \<longleftrightarrow> ''codice_transazione'' \<in> set (columns df)"
  by (simp add: set_columns_stamp)

lemma data_in_stamp [simp]:
  "''data'' \<in> set (columns (stamp m df)) \<longleftrightarrow> ''data'' \<in> set (columns df)"
  by (simp add: set_columns_stamp)

lemma stamp_row_code [simp]: "stamp_row m r ''codice_transazione'' = r ''codice_transazione''"
  by (simp add: stamp_row_def)

lemma stamp_row_data [simp]: "stamp_row m r ''data'' = r ''data''"
  by (simp add: stamp_row_def)

lemma columns_stamp_nonempty [simp]: "columns (stamp m df) \<noteq> []"
  by (auto simp add: stamp_def set_column_def)

lemma mset_sort_values_data [simp]: "mset (rows (sort_values_data df)) = mset (rows df)"
  by (simp add: sort_values_data_def)

lemma columns_sort_values_data [simp]: "columns (sort_values_data df) = columns df"
  by (simp add: sort_values_data_def)

lemma returned_sort_and_save:
  "returned (sort_and_save u msgs)
     = (if ''data'' \<in> set (columns u) then sort_values_data u else u)"
  by (simp add: sort_and_save_def Let_def)

lemma saved_sort_and_save:
  "saved (sort_and_save u msgs) = Some (returned (sort_and_save u msgs))"
  by (simp add: sort_and_save_def Let_def)

lemma shown_sort_and_save [simp]: "shown (sort_and_save u msgs) = msgs"
  by (simp add: sort_and_save_def Let_def)

lemma mset_returned_sort_and_save [simp]:
  "mset (rows (returned (sort_and_save u msgs))) = mset (rows u)"
  by (simp add: returned_sort_and_save)

lemma columns_returned_sort_and_save [simp]:
  "columns (returned (sort_and_save u msgs)) = columns u"
  by (simp add: returned_sort_and_save)

lemma set_rows_returned_sort_and_save [simp]:
  "set (rows (returned (sort_and_save u msgs))) = set (rows u)"
  using mset_returned_sort_and_save [of u msgs] by (metis set_mset_mset)

lemma new_transactions_eq:
  "new_transactions L (stamp m B) = (stamp m B)\<lparr>rows := map (stamp_row m) (kept_rows L B)\<rparr>"
  by (simp add: new_transactions_def rows_stamp kept_rows_def filter_map o_def)


lemma set_columns_pd_concat [simp]:
  "set (columns (pd_concat a b)) = set (columns a) \<union> set (columns b)"
  by (auto simp add: pd_concat_def)

subsection \<open>The three branches of \<open>add_import_to_historical\<close>\<close>

lemma add_import_empty:
  "df_empty L \<Longrightarrow> add_import_to_historical L B m = sort_and_save (stamp m B) []"
  by (simp add: add_import_to_historical_def Let_def)

lemma add_import_dedup:
  assumes "\<not> df_empty L" "''codice_transazione'' \<in> set (columns L)"
    "''codice_transazione'' \<in> set (columns B)"
  shows "add_import_to_historical L B m =
    (if kept_rows L B = []
     then \<lparr>returned = L, saved = None, shown = [All_already_present]\<rparr>
     else sort_and_save (pd_concat L ((stamp m B)\<lparr>rows := map (stamp_row m) (kept_rows L B)\<rparr>))
            [Added (length (kept_rows L B)) (length (rows B) - length (kept_rows L B))])"
  using assms
  by (simp add: add_import_to_historical_def Let_def new_transactions_eq rows_stamp)


lemma add_import_noop:
  assumes "\<not> df_empty L" "''codice_transazione'' \<in> set (columns L)"
    "''codice_transazione'' \<in> set (columns B)"
    "\<forall>r\<in>set (rows B). r ''codice_transazione'' \<in> existing_codes L"
  shows "add_import_to_historical L B m
           = \<lparr>returned = L, saved = None, shown = [All_already_present]\<rparr>"
proof -
  have "kept_rows L B = []"
    using assms(4) by (simp add: kept_rows_def filter_empty_conv)
  then show ?thesis
    by (simp add: add_import_dedup [OF assms(1-3)])
qed

subsection \<open>Properties of \<open>add_import_to_historical\<close>\<close>

lemma txn_code [simp]: "txn c d ''codice_transazione'' = Str c"
  by (simp add: txn_def row_of_def)

lemma txn_data [simp]: "txn c d ''data'' = d"
  by (simp add: txn_def row_of_def)



text \<open>
  C2. When the existing ledger is not empty and the code of every row of the batch is
  among the codes of the ledger, the merge returns the ledger as it is, does not call
  \<open>save_historical_data\<close> and shows the warning that everything is already present.
\<close>

theorem merge_all_present_is_noop:
  "\<not> df_empty L \<Longrightarrow> ''codice_transazione'' \<in> set (columns L) \<Longrightarrow>
   ''codice_transazione'' \<in> set (columns B) \<Longrightarrow>
   \<forall>r\<in>set (rows B). r ''codice_transazione'' \<in> existing_codes L \<Longrightarrow>
   returned (add_import_to_historical L B m) = L
   \<and> saved (add_import_to_historical L B m) = None
   \<and> shown (add_import_to_historical L B m) = [All_already_present]"
  by (simp add: add_import_noop)

theorem merge_all_present_is_noop_witness:
  "\<not> df_empty ledger_AB
   \<and> ''codice_transazione'' \<in> set (columns ledger_AB)
   \<and> ''codice_transazione'' \<in> set (columns batch_AB)
   \<and> list_all (\<lambda>r. r ''codice_transazione'' \<in> existing_codes ledger_AB) (rows batch_AB)
   \<and> returned (add_import_to_historical ledger_AB batch_AB import_2) = ledger_AB
   \<and> saved (add_import_to_historical ledger_AB batch_AB import_2) = None
   \<and> shown (add_import_to_historical ledger_AB batch_AB import_2) = [All_already_present]"
proof -
  have h1: "\<not> df_empty ledger_AB"
    by (simp add: df_empty_def ledger_AB_def)
  have h2: "''codice_transazione'' \<in> set (columns ledger_AB)"
    by (simp add: ledger_AB_def)
  have h3: "''codice_transazione'' \<in> set (columns batch_AB)"
    by (simp add: batch_AB_def)
  have h4: "\<forall>r\<in>set (rows batch_AB). r ''codice_transazione'' \<in> existing_codes ledger_AB"
    by (simp add: existing_codes_def ledger_AB_def batch_AB_def)
  show ?thesis
    using merge_all_present_is_noop [OF h1 h2 h3 h4, of import_2] h1 h2 h3 h4
    by (simp add: list_all_iff)
qed

text \<open>
  C5, amended. When the existing ledger is empty, the result holds exactly the stamped
  rows of the batch, none dropped and none added, and it is saved. It is the stamped batch
  in the batch's order when the batch has no \<open>data\<close> column; when it has one, the result
  is the stamped batch sorted by date.
\<close>

theorem merge_into_empty:
  "df_empty L \<Longrightarrow>
   saved (add_import_to_historical L B m) = Some (returned (add_import_to_historical L B m))
   \<and> shown (add_import_to_historical L B m) = []
   \<and> columns (returned (add_import_to_historical L B m)) = columns (stamp m B)
   \<and> mset (rows (returned (add_import_to_historical L B m))) = mset (rows (stamp m B))
   \<and> length (rows (returned (add_import_to_historical L B m))) = length (rows B)
   \<and> (''data'' \<notin> set (columns B) \<longrightarrow> returned (add_import_to_historical L B m) = stamp m B)
   \<and> (''data'' \<in> set (columns B) \<longrightarrow>
        returned (add_import_to_historical L B m) = sort_values_data (stamp m B))"
proof -
  assume e: "df_empty L"
  have len: "length (rows (returned (sort_and_save (stamp m B) []))) = length (rows B)"
    using mset_returned_sort_and_save [of "stamp m B" "[]"]
    by (metis length_map rows_stamp size_mset)
  show ?thesis
    by (simp add: add_import_empty [OF e] saved_sort_and_save len)
      (simp add: returned_sort_and_save)
qed

lemma sort_values_data_batch_BC:
  "rows (sort_values_data (stamp import_1 batch_BC))
     = [stamp_row import_1 (txn ''C'' (Ts 3)), stamp_row import_1 (txn ''B'' (Ts 2))]"
  by (simp add: sort_values_data_def rows_stamp batch_BC_def dated_def date_key_def)

text \<open>
  The claim C5 as stated (same order) fails: a batch dated 2 then 3 comes back dated 3
  then 2.
\<close>

theorem merge_into_empty_counterexample:
  "df_empty DataFrame
   \<and> rows (returned (add_import_to_historical DataFrame batch_BC import_1))
       = [stamp_row import_1 (txn ''C'' (Ts 3)), stamp_row import_1 (txn ''B'' (Ts 2))]
   \<and> rows (stamp import_1 batch_BC)
       = [stamp_row import_1 (txn ''B'' (Ts 2)), stamp_row import_1 (txn ''C'' (Ts 3))]
   \<and> returned (add_import_to_historical DataFrame batch_BC import_1) \<noteq> stamp import_1 batch_BC"
proof -
  have e: "df_empty DataFrame" by (simp add: df_empty_def DataFrame_def)
  have d: "''data'' \<in> set (columns (stamp import_1 batch_BC))"
    by (simp add: batch_BC_def)
  have r: "rows (returned (add_import_to_historical DataFrame batch_BC import_1))
       = [stamp_row import_1 (txn ''C'' (Ts 3)), stamp_row import_1 (txn ''B'' (Ts 2))]"
    using d by (simp add: add_import_empty [OF e] returned_sort_and_save sort_values_data_batch_BC)
  have s: "rows (stamp import_1 batch_BC)
       = [stamp_row import_1 (txn ''B'' (Ts 2)), stamp_row import_1 (txn ''C'' (Ts 3))]"
    by (simp add: rows_stamp batch_BC_def)
  have ne: "stamp_row import_1 (txn ''C'' (Ts 3)) \<noteq> stamp_row import_1 (txn ''B'' (Ts 2))"
  proof
    assume "stamp_row import_1 (txn ''C'' (Ts 3)) = stamp_row import_1 (txn ''B'' (Ts 2))"
    then have "stamp_row import_1 (txn ''C'' (Ts 3)) ''data'' = stamp_row import_1 (txn ''B'' (Ts 2)) ''data''"
      by simp
    then show False by simp
  qed
  have "rows (returned (add_import_to_historical DataFrame batch_BC import_1))
          \<noteq> rows (stamp import_1 batch_BC)"
    using ne by (simp add: r s)
  then have "returned (add_import_to_historical DataFrame batch_BC import_1) \<noteq> stamp import_1 batch_BC"
    by auto
  then show ?thesis using e r s by simp
qed

theorem merge_into_empty_witness:
  "df_empty DataFrame
   \<and> saved (add_import_to_historical DataFrame batch_BC import_1)
       = Some (returned (add_import_to_historical DataFrame batch_BC import_1))
   \<and> length (rows (returned (add_import_to_historical DataFrame batch_BC import_1))) = 2
   \<and> returned (add_import_to_historical DataFrame batch_BC import_1)
       = sort_values_data (stamp import_1 batch_BC)"
proof -
  have e: "df_empty DataFrame" by (simp add: df_empty_def DataFrame_def)
  have d: "''data'' \<in> set (columns batch_BC)" "length (rows batch_BC) = 2"
    by (simp_all add: batch_BC_def)
  note t = merge_into_empty [OF e, of batch_BC import_1]
  from t have a: "saved (add_import_to_historical DataFrame batch_BC import_1)
       = Some (returned (add_import_to_historical DataFrame batch_BC import_1))"
    by blast
  from t have "length (rows (returned (add_import_to_historical DataFrame batch_BC import_1)))
       = length (rows batch_BC)"
    by blast
  then have b: "length (rows (returned (add_import_to_historical DataFrame batch_BC import_1))) = 2"
    by (simp only: d)
  from t d(1) have c: "returned (add_import_to_historical DataFrame batch_BC import_1)
       = sort_values_data (stamp import_1 batch_BC)"
    by blast
  from e a b c show ?thesis by blast
qed

subsection \<open>Order of the merged ledger\<close>












lemma dated_reindex_row [simp]:
  "''data'' \<in> set cols \<Longrightarrow> dated (reindex_row cols r) = dated r"
  by (simp add: dated_def reindex_row_def)

lemma date_key_reindex_row [simp]:
  "''data'' \<in> set cols \<Longrightarrow> date_key (reindex_row cols r) = date_key r"
  by (simp add: date_key_def reindex_row_def)

lemma dated_stamp_row [simp]: "dated (stamp_row m r) = dated r"
  by (simp add: dated_def)

lemma date_key_stamp_row [simp]: "date_key (stamp_row m r) = date_key r"
  by (simp add: date_key_def)

lemma dated_txn [simp]: "dated (txn c (Ts t))" "\<not> dated (txn c NaN)"
  by (simp_all add: dated_def)

lemma date_key_txn [simp]: "date_key (txn c (Ts t)) = t"
  by (simp add: date_key_def)



subsection \<open>Importing the same batch twice\<close>

lemma existing_codes_iff:
  "c \<in> existing_codes df \<longleftrightarrow> c \<noteq> NaN \<and> (\<exists>r\<in>set (rows df). r ''codice_transazione'' = c)"
  by (auto simp add: existing_codes_def)

lemma existing_codes_returned [simp]:
  "existing_codes (returned (sort_and_save u msgs)) = existing_codes u"
  by (auto simp add: existing_codes_iff)

lemma rows_returned_Nil [simp]:
  "rows (returned (sort_and_save u msgs)) = [] \<longleftrightarrow> rows u = []"
  using mset_returned_sort_and_save [of u msgs] by (metis mset_zero_iff)

lemma df_empty_returned [simp]:
  "df_empty (returned (sort_and_save u msgs)) = df_empty u"
  by (simp add: df_empty_def)

lemma code_reindex_row [simp]:
  "''codice_transazione'' \<in> set cols \<Longrightarrow>
   reindex_row cols r ''codice_transazione'' = r ''codice_transazione''"
  by (simp add: reindex_row_def)




lemma existing_codes_stamp [simp]: "existing_codes (stamp m B) = existing_codes B"
  by (auto simp add: existing_codes_iff rows_stamp)











subsection \<open>Synthetic codes\<close>

lemma length_rows_set_column_indexed [simp]:
  "length (rows (set_column_indexed c f df)) = length (rows df)"
  by (simp add: set_column_indexed_def)

lemma nth_rows_set_column_indexed:
  "i < length (rows df) \<Longrightarrow>
   rows (set_column_indexed c f df) ! i = (rows df ! i)(c := f i (rows df ! i))"
  by (simp add: set_column_indexed_def nth_enumerate_eq)

lemma columns_set_column_indexed:
  "set (columns (set_column_indexed c f df)) = insert c (set (columns df))"
  by (auto simp add: set_column_indexed_def)

lemma length_rows_assign [simp]:
  "length (rows (assign_transaction_codes fmt df)) = length (rows df)"
  by (simp add: assign_transaction_codes_def Let_def set_column_def)

lemma code_in_assign [simp]:
  "''codice_transazione'' \<in> set (columns (assign_transaction_codes fmt df))"
  by (simp add: assign_transaction_codes_def Let_def columns_set_column_indexed set_column_def)

lemma synthetic_code:
  assumes "''codice_transazione'' \<notin> set (columns df)" "i < length (rows df)"
  shows "(rows (assign_transaction_codes fmt df) ! i) ''codice_transazione''
           = Str (''TXN_'' @ str_nat i)"
  using assms
  by (simp add: assign_transaction_codes_def Let_def nth_rows_set_column_indexed)

text \<open>
  C4. What the code does, against the claim. When two batches both lack the column
  \<open>codice_transazione\<close>, each gets the codes \<open>TXN_0\<close>, \<open>TXN_1\<close>, ... by position. After the
  first batch has been merged into an empty ledger, every record of a second batch that is
  not longer than the first has a code that the ledger already holds: the second merge
  drops all of them, saves nothing and reports that every transaction is already present,
  whatever the records are.
\<close>

theorem synthetic_codes_collide:
  "''codice_transazione'' \<notin> set (columns b1) \<Longrightarrow>
   ''codice_transazione'' \<notin> set (columns b2) \<Longrightarrow>
   rows b1 \<noteq> [] \<Longrightarrow> length (rows b2) \<le> length (rows b1) \<Longrightarrow>
   add_import_to_historical
       (returned (add_import_to_historical DataFrame (assign_transaction_codes fmt b1) m1))
       (assign_transaction_codes fmt b2) m2
     = \<lparr>returned = returned (add_import_to_historical DataFrame
                                 (assign_transaction_codes fmt b1) m1),
        saved = None, shown = [All_already_present]\<rparr>"
proof -
  assume c1: "''codice_transazione'' \<notin> set (columns b1)"
    and c2: "''codice_transazione'' \<notin> set (columns b2)"
    and ne: "rows b1 \<noteq> []" and le: "length (rows b2) \<le> length (rows b1)"
  define a1 where "a1 = assign_transaction_codes fmt b1"
  define a2 where "a2 = assign_transaction_codes fmt b2"
  define L1 where "L1 = returned (add_import_to_historical DataFrame a1 m1)"
  have e: "df_empty DataFrame" by (simp add: df_empty_def DataFrame_def)
  have first: "L1 = returned (sort_and_save (stamp m1 a1) [])"
    by (simp add: L1_def add_import_empty [OF e])
  have "rows a1 \<noteq> []"
    using ne length_rows_assign [of fmt b1] unfolding a1_def by (metis length_0_conv)
  then have h1: "\<not> df_empty L1"
    by (simp add: first df_empty_def rows_stamp)
  have h2: "''codice_transazione'' \<in> set (columns L1)"
    by (simp add: first a1_def)
  have h3: "''codice_transazione'' \<in> set (columns a2)"
    by (simp add: a2_def)
  have ec: "existing_codes L1 = existing_codes a1"
    by (simp add: first)
  have h4: "\<forall>r\<in>set (rows a2). r ''codice_transazione'' \<in> existing_codes L1"
  proof
    fix r assume "r \<in> set (rows a2)"
    then obtain i where i: "i < length (rows a2)" "r = rows a2 ! i"
      by (metis in_set_conv_nth)
    then have i2: "i < length (rows b2)"
      by (simp add: a2_def)
    then have i1: "i < length (rows b1)"
      using le by simp
    have "r ''codice_transazione'' = Str (''TXN_'' @ str_nat i)"
      using synthetic_code [OF c2 i2, of fmt] i(2) by (simp add: a2_def)
    moreover have "(rows a1 ! i) ''codice_transazione'' = Str (''TXN_'' @ str_nat i)"
      using synthetic_code [OF c1 i1, of fmt] by (simp add: a1_def)
    moreover have "rows a1 ! i \<in> set (rows a1)"
      using i1 by (simp add: a1_def)
    ultimately show "r ''codice_transazione'' \<in> existing_codes L1"
      unfolding ec existing_codes_iff by (metis cell.distinct(1))
  qed
  show ?thesis
    using add_import_noop [OF h1 h2 h3 h4, of m2]
    by (simp add: L1_def a1_def a2_def)
qed

lemma rows_assign_alice:
  "rows (assign_transaction_codes plain batch_alice)
    = [(row_of [(''nome'', Str ''Alice'')])
         (''codice_transazione'' := Str ''TXN_0'', ''id_univoco'' := Str ''TXN_0_0'')]"
  by (simp add: assign_transaction_codes_def Let_def batch_alice_def set_column_indexed_def
      astype_str_def digit_def)

lemma rows_assign_bob:
  "rows (assign_transaction_codes plain batch_bob)
    = [(row_of [(''nome'', Str ''Bob'')])
         (''codice_transazione'' := Str ''TXN_0'', ''id_univoco'' := Str ''TXN_0_0'')]"
  by (simp add: assign_transaction_codes_def Let_def batch_bob_def set_column_indexed_def
      astype_str_def digit_def)

theorem synthetic_codes_collide_witness:
  "''codice_transazione'' \<notin> set (columns batch_alice)
   \<and> ''codice_transazione'' \<notin> set (columns batch_bob)
   \<and> rows batch_alice \<noteq> []
   \<and> length (rows batch_bob) \<le> length (rows batch_alice)
   \<and> map (\<lambda>r. r ''nome'') (rows (assign_transaction_codes plain batch_alice)) = [Str ''Alice'']
   \<and> map (\<lambda>r. r ''nome'') (rows (assign_transaction_codes plain batch_bob)) = [Str ''Bob'']
   \<and> map (\<lambda>r. r ''codice_transazione'') (rows (assign_transaction_codes plain batch_alice))
       = [Str ''TXN_0'']
   \<and> map (\<lambda>r. r ''codice_transazione'') (rows (assign_transaction_codes plain batch_bob))
       = [Str ''TXN_0'']
   \<and> map (\<lambda>r. r ''nome'')
        (rows (returned (add_import_to_historical DataFrame
                           (assign_transaction_codes plain batch_alice) import_1)))
       = [Str ''Alice'']
   \<and> add_import_to_historical
       (returned (add_import_to_historical DataFrame
                    (assign_transaction_codes plain batch_alice) import_1))
       (assign_transaction_codes plain batch_bob) import_2
     = \<lparr>returned = returned (add_import_to_historical DataFrame
                                 (assign_transaction_codes plain batch_alice) import_1),
        saved = None, shown = [All_already_present]\<rparr>"
proof -
  have h1: "''codice_transazione'' \<notin> set (columns batch_alice)"
    by (simp add: batch_alice_def)
  have h2: "''codice_transazione'' \<notin> set (columns batch_bob)"
    by (simp add: batch_bob_def)
  have h3: "rows batch_alice \<noteq> []"
    by (simp add: batch_alice_def)
  have h4: "length (rows batch_bob) \<le> length (rows batch_alice)"
    by (simp add: batch_alice_def batch_bob_def)
  have e: "df_empty DataFrame" by (simp add: df_empty_def DataFrame_def)
  have n1: "map (\<lambda>r. r ''nome'') (rows (assign_transaction_codes plain batch_alice)) = [Str ''Alice'']"
    by (simp add: rows_assign_alice row_of_def)
  have n2: "map (\<lambda>r. r ''nome'') (rows (assign_transaction_codes plain batch_bob)) = [Str ''Bob'']"
    by (simp add: rows_assign_bob row_of_def)
  have k1: "map (\<lambda>r. r ''codice_transazione'') (rows (assign_transaction_codes plain batch_alice))
       = [Str ''TXN_0'']"
    by (simp add: rows_assign_alice)
  have k2: "map (\<lambda>r. r ''codice_transazione'') (rows (assign_transaction_codes plain batch_bob))
       = [Str ''TXN_0'']"
    by (simp add: rows_assign_bob)
  have d: "''data'' \<notin> set (columns (assign_transaction_codes plain batch_alice))"
    by (simp add: assign_transaction_codes_def Let_def batch_alice_def set_column_indexed_def)
  have l: "map (\<lambda>r. r ''nome'')
        (rows (returned (add_import_to_historical DataFrame
                           (assign_transaction_codes plain batch_alice) import_1)))
       = [Str ''Alice'']"
    using d by (simp add: add_import_empty [OF e] returned_sort_and_save rows_stamp
        rows_assign_alice stamp_row_def row_of_def)
  note t = synthetic_codes_collide [OF h1 h2 h3 h4, of plain import_1 import_2]
  from h1 h2 h3 h4 n1 n2 k1 k2 l t show ?thesis by blast
qed

section \<open>The handlers of the sidebar\<close>

text \<open>
  C7. When the bytes of the uploaded file can be read and their fingerprint is the
  \<open>file_hash\<close> of some entry of \<open>import_history\<close>, the handler only warns that the file
  is already loaded: it does not call \<open>load_paypal_excel\<close>, it does not call
  \<open>add_import_to_historical\<close> (the only place of this handler that writes the ledger)
  and it does not write the metadata document. This holds whatever the hash function is.
\<close>

theorem upload_same_bytes_skipped:
  "file_bytes f = Some b \<Longrightarrow> import_history md = Some hist \<Longrightarrow>
   \<exists>imp\<in>set hist. file_hash imp = Some (md5 b) \<Longrightarrow>
   upload_handler md5 py_hash to_datetime e md (Some f)
     = \<lparr>already_loaded = True, parsed = False, merged = None, metadata_saved = None\<rparr>"
proof -
  assume b: "file_bytes f = Some b" and h: "import_history md = Some hist"
    and ex: "\<exists>imp\<in>set hist. file_hash imp = Some (md5 b)"
  have g: "get_file_hash md5 py_hash f = md5 b"
    by (simp add: get_file_hash_def b)
  from ex obtain imp where "imp \<in> set hist" "file_hash imp = Some (md5 b)"
    by blast
  then have "md5 b \<in> set (map (\<lambda>imp. case file_hash imp of Some h \<Rightarrow> h | None \<Rightarrow> []) hist)"
    by force
  then show ?thesis
    by (simp add: upload_handler_def Let_def g h)
qed

theorem upload_same_bytes_skipped_witness:
  "file_bytes upload_h1 = Some ''h1''
   \<and> import_history history_one = Some [import_1]
   \<and> file_hash import_1 = Some (toy_hash ''h1'')
   \<and> upload_handler toy_hash toy_hash no_datetime quiet_env history_one (Some upload_h1)
     = \<lparr>already_loaded = True, parsed = False, merged = None, metadata_saved = None\<rparr>"
proof -
  have b: "file_bytes upload_h1 = Some ''h1''"
    by (simp add: upload_h1_def)
  have h: "import_history history_one = Some [import_1]"
    by (simp add: history_one_def)
  have f: "file_hash import_1 = Some (toy_hash ''h1'')"
    by (simp add: import_1_def toy_hash_def)
  then have ex: "\<exists>imp\<in>set [import_1]. file_hash imp = Some (toy_hash ''h1'')"
    by simp
  from upload_same_bytes_skipped
         [of upload_h1 "''h1''" history_one "[import_1]" toy_hash toy_hash no_datetime quiet_env,
          OF b h ex] b h f
  show ?thesis by blast
qed

text \<open>
  C9. A click on the delete button of a category of the list writes the metadata document
  with one occurrence of the name removed from \<open>categories\<close> (so the name is gone when
  the list has no duplicates, as the add handler keeps it), with no entry for the name in
  \<open>subcategories\<close> and the other entries as they were, and with \<open>last_update\<close>
  stamped. It writes nothing to the ledger: whatever the stored ledger is, records tagged
  with the removed category included, it is the same after the handler.
\<close>

theorem delete_category_taxonomy_only:
  "categories md = Some cs \<Longrightarrow> i < length cs \<Longrightarrow>
   metadata_written (delete_category now md i)
     = Some (md\<lparr>last_update := Some (Some now),
                 categories := Some (remove1 (cs ! i) cs),
                 subcategories := map_option (filter (\<lambda>kv. fst kv \<noteq> cs ! i))
                                    (subcategories md)\<rparr>)
   \<and> (distinct cs \<longrightarrow> cs ! i \<notin> set (remove1 (cs ! i) cs))
   \<and> length (remove1 (cs ! i) cs) + 1 = length cs
   \<and> (\<forall>d. subcategories md = Some d \<longrightarrow>
          cs ! i \<notin> fst ` set (filter (\<lambda>kv. fst kv \<noteq> cs ! i) d))
   \<and> ledger_written (delete_category now md i) = None
   \<and> (\<forall>stored. ledger_after (delete_category now md i) stored = stored)"
proof -
  assume c: "categories md = Some cs" and i: "i < length cs"
  have mem: "cs ! i \<in> set cs"
    using i by simp
  have keep: "\<And>d. cs ! i \<notin> fst ` set d \<Longrightarrow> filter (\<lambda>kv. fst kv \<noteq> cs ! i) d = d"
    by (force simp add: filter_id_conv)
  have w: "metadata_written (delete_category now md i)
     = Some (md\<lparr>last_update := Some (Some now),
                 categories := Some (remove1 (cs ! i) cs),
                 subcategories := map_option (filter (\<lambda>kv. fst kv \<noteq> cs ! i))
                                    (subcategories md)\<rparr>)"
  proof (cases "subcategories md")
    case None
    then show ?thesis
      using c i by (simp add: delete_category_def Let_def save_metadata_def)
  next
    case (Some d)
    then show ?thesis
      using c i keep [of d]
      by (cases "cs ! i \<in> fst ` set d")
        (simp_all add: delete_category_def Let_def save_metadata_def)
  qed
  have l: "length (remove1 (cs ! i) cs) + 1 = length cs"
    using mem by (simp add: length_remove1) (metis i length_greater_0_conv list.size(3) not_less_zero Suc_pred)
  have lw: "ledger_written (delete_category now md i) = None"
    by (simp add: delete_category_def Let_def)
  from w l lw show ?thesis
    by (auto simp add: ledger_after_def)
qed

theorem delete_category_taxonomy_only_witness:
  "categories default_metadata
     = Some [''Software'', ''Domini e Hosting'', ''Servizi Web'', ''Abbonamenti'',
             ''Hardware'', ''Consulenze'', ''Marketing'', ''Altro'']
   \<and> metadata_written (delete_category ''2024-01-03 10:00:00'' default_metadata 6)
     = Some \<lparr>import_history = Some [],
             last_update = Some (Some ''2024-01-03 10:00:00''),
             categories = Some [''Software'', ''Domini e Hosting'', ''Servizi Web'',
                                ''Abbonamenti'', ''Hardware'', ''Consulenze'', ''Altro''],
             subcategories = Some
               [(''Software'', [''Licenze'', ''Abbonamenti SaaS'', ''Plugin'', ''Applicazioni'']),
                (''Domini e Hosting'',
                 [''Registrazione Domini'', ''Hosting Web'', ''SSL'', ''CDN'']),
                (''Servizi Web'', [''API'', ''Cloud Storage'', ''Email Service'', ''Backup''])]\<rparr>
   \<and> ledger_written (delete_category ''2024-01-03 10:00:00'' default_metadata 6) = None
   \<and> ledger_after (delete_category ''2024-01-03 10:00:00'' default_metadata 6) ledger_marketing
       = ledger_marketing"
proof -
  let ?cs = "[''Software'', ''Domini e Hosting'', ''Servizi Web'', ''Abbonamenti'',
             ''Hardware'', ''Consulenze'', ''Marketing'', ''Altro'']"
  have c: "categories default_metadata = Some ?cs"
    by (simp add: default_metadata_def)
  have i: "6 < length ?cs"
    by simp
  note t = delete_category_taxonomy_only [OF c i, of "''2024-01-03 10:00:00''"]
  have n: "?cs ! 6 = ''Marketing''"
    by simp
  from t have "metadata_written (delete_category ''2024-01-03 10:00:00'' default_metadata 6)
     = Some (default_metadata\<lparr>last_update := Some (Some ''2024-01-03 10:00:00''),
                 categories := Some (remove1 (?cs ! 6) ?cs),
                 subcategories := map_option (filter (\<lambda>kv. fst kv \<noteq> ?cs ! 6))
                                    (subcategories default_metadata)\<rparr>)"
    by (rule conjunct1)
  then have w: "metadata_written (delete_category ''2024-01-03 10:00:00'' default_metadata 6)
     = Some \<lparr>import_history = Some [],
             last_update = Some (Some ''2024-01-03 10:00:00''),
             categories = Some [''Software'', ''Domini e Hosting'', ''Servizi Web'',
                                ''Abbonamenti'', ''Hardware'', ''Consulenze'', ''Altro''],
             subcategories = Some
               [(''Software'', [''Licenze'', ''Abbonamenti SaaS'', ''Plugin'', ''Applicazioni'']),
                (''Domini e Hosting'',
                 [''Registrazione Domini'', ''Hosting Web'', ''SSL'', ''CDN'']),
                (''Servizi Web'', [''API'', ''Cloud Storage'', ''Email Service'', ''Backup''])]\<rparr>"
    by (simp only: n) (simp add: default_metadata_def)
  from t have l: "ledger_written (delete_category ''2024-01-03 10:00:00'' default_metadata 6) = None"
    by blast
  from t have a: "ledger_after (delete_category ''2024-01-03 10:00:00'' default_metadata 6)
      ledger_marketing = ledger_marketing"
    by blast
  from c w l a show ?thesis by blast
qed

end
